theory Spec2Isabelle
  imports Main "HOL-Library.Word"
begin

unbundle bit_operations_syntax

section \<open>The Emit ePost decoder (src/devices/emit_epost.c)\<close>

text \<open>
  A shallow embedding of \<^verbatim>\<open>emit_epost_decode\<close>. The C function reads the wall clock,
  searches row 0 of the bit buffer for the preamble and sync word, extracts 12 bytes
  after them, XORs the frame buffer with the whitening table, unpacks the fields,
  checks the CRC and outputs one data record. Calls that leave the function (the
  clock, the bit buffer helpers, the log, the output) and every read of the whitening
  table are recorded, in order, in a list of events returned beside the return value.
\<close>

subsection \<open>Machine types\<close>

type_synonym uint8_t = "8 word"
type_synonym uint16_t = "16 word"
type_synonym uint32_t = "32 word"
type_synonym uint64_t = "64 word"

subsection \<open>What the decoder receives\<close>

text \<open>
  \<^verbatim>\<open>struct timespec\<close> as filled in by \<^verbatim>\<open>clock_gettime\<close>; \<open>tv_nsec\<close> is in
  \<open>0 .. 999999999\<close> there, so C's truncating \<^verbatim>\<open>/\<close> and \<^verbatim>\<open>%\<close> agree with
  \<open>div\<close> and \<open>mod\<close>.
\<close>

record timespec =
  tv_sec :: int
  tv_nsec :: int

text \<open>
  The fields of \<^verbatim>\<open>bitbuffer_t\<close> that the decoder reads. In C the arrays have a fixed
  size; here a list holds the leading entries and an entry past the end of the list
  reads as zero, which is what a cleared bit buffer holds there.
\<close>

record bitbuffer_t =
  num_rows :: nat
  bits_per_row :: "nat list"
  bb :: "uint8_t list list"

definition row_len :: "bitbuffer_t \<Rightarrow> nat \<Rightarrow> nat" where
  "row_len bitbuffer row =
     (if row < length (bits_per_row bitbuffer) then bits_per_row bitbuffer ! row else 0)"

definition byte_at :: "uint8_t list \<Rightarrow> nat \<Rightarrow> uint8_t" where
  "byte_at bytes i = (if i < length bytes then bytes ! i else 0)"

definition row_bytes :: "bitbuffer_t \<Rightarrow> nat \<Rightarrow> uint8_t list" where
  "row_bytes bitbuffer row = (if row < length (bb bitbuffer) then bb bitbuffer ! row else [])"

text \<open>Bit \<open>pos\<close> of a byte array, most significant bit of each byte first.\<close>

definition bit_at :: "uint8_t list \<Rightarrow> nat \<Rightarrow> bool" where
  "bit_at bytes pos = bit (byte_at bytes (pos div 8)) (7 - pos mod 8)"

text \<open>
  The enumerators of \<^verbatim>\<open>enum decode_return_codes\<close> come from a header that is not part
  of the decoder's file, so their values are a parameter of the model.
\<close>

record decode_return_codes =
  DECODE_ABORT_LENGTH :: int
  DECODE_ABORT_EARLY :: int
  DECODE_FAIL_MIC :: int
  DECODE_FAIL_SANITY :: int

text \<open>
  What the platform supplies: the result of \<^verbatim>\<open>clock_gettime\<close> (\<open>None\<close> when it
  returns non-zero), and the bytes that lie in memory behind the 18 entries of the
  whitening table (entry \<open>k\<close> is the byte at \<^verbatim>\<open>whitening[18 + k]\<close>), which C leaves
  unspecified.
\<close>

record platform =
  clock_result :: "timespec option"
  past_whitening :: "nat \<Rightarrow> uint8_t"

subsection \<open>What the decoder does to the outside\<close>

datatype data_value = DATA_STRING string | DATA_INT int

text \<open>The argument list of \<^verbatim>\<open>data_make\<close>: key, pretty key, value.\<close>

type_synonym data_t = "(string \<times> string \<times> data_value) list"

datatype event =
    Clock_gettime
  | Bitbuffer_search nat nat nat
  | Bitbuffer_extract_bytes nat nat nat
  | Whitening_read nat
  | Decoder_logf nat string "int list"
  | Decoder_output_data data_t

subsection \<open>Constant tables\<close>

definition whitening :: "uint8_t list" where
  "whitening = [0xff, 0xe1, 0x1d, 0x9a, 0xed, 0x85, 0x33, 0x24, 0xea,
                0x7a, 0xd2, 0x39, 0x70, 0x97, 0x57, 0x0a, 0x54, 0x7d]"

definition preamble :: "uint8_t list" where
  "preamble = [0xaa, 0xaa, 0xd3, 0x91, 0xd3, 0x91]"

text \<open>The read \<^verbatim>\<open>whitening[i]\<close>: inside the table its entry, behind it the platform's byte.\<close>

definition whitening_at :: "platform \<Rightarrow> nat \<Rightarrow> uint8_t" where
  "whitening_at pf i =
     (if i < length whitening then whitening ! i else past_whitening pf (i - length whitening))"

subsection \<open>The helpers of the bit buffer and the CRC\<close>

text \<open>
  Modelled from the spec: \<^verbatim>\<open>bitbuffer_search\<close> is declared in bitbuffer.h and defined
  outside the decoder's file. The Frame Locator of the spec finds the first exact
  occurrence of the whole marker, scanning left to right, and answers the row's bit
  length when there is none. The decoder adds the marker's bit length to the answer
  itself (line 106), so the helper's answer is the position where the occurrence starts.
\<close>

definition matches_at :: "uint8_t list \<Rightarrow> uint8_t list \<Rightarrow> nat \<Rightarrow> nat \<Rightarrow> bool" where
  "matches_at bytes pattern pattern_bits_len pos =
     list_all (\<lambda>k. bit_at bytes (pos + k) = bit_at pattern k) [0..<pattern_bits_len]"

definition bitbuffer_search :: "bitbuffer_t \<Rightarrow> nat \<Rightarrow> nat \<Rightarrow> uint8_t list \<Rightarrow> nat \<Rightarrow> nat" where
  "bitbuffer_search bitbuffer row start pattern pattern_bits_len =
     (case find (matches_at (row_bytes bitbuffer row) pattern pattern_bits_len)
                [start..<Suc (row_len bitbuffer row) - pattern_bits_len] of
        Some pos \<Rightarrow> pos
      | None \<Rightarrow> row_len bitbuffer row)"

text \<open>
  Modelled from the spec: \<^verbatim>\<open>bitbuffer_extract_bytes\<close> is declared in bitbuffer.h and
  defined outside the decoder's file. The Byte Extractor of the spec copies \<open>len\<close> bits
  of the row, from bit \<open>pos\<close> on, into bytes, and does not look at the row's bit length.
\<close>

definition byte_of_bits :: "bool list \<Rightarrow> uint8_t" where
  "byte_of_bits bs = foldl (\<lambda>w b. push_bit 1 w OR (if b then 1 else 0)) 0 bs"

definition bitbuffer_extract_bytes :: "bitbuffer_t \<Rightarrow> nat \<Rightarrow> nat \<Rightarrow> nat \<Rightarrow> uint8_t list" where
  "bitbuffer_extract_bytes bitbuffer row pos len =
     map (\<lambda>k. byte_of_bits
                (map (\<lambda>j. 8 * k + j < len \<and> bit_at (row_bytes bitbuffer row) (pos + 8 * k + j))
                     [0..<8]))
         [0..<(len + 7) div 8]"

text \<open>
  Modelled from the spec: \<^verbatim>\<open>crc16\<close> is declared in the utility header and defined
  outside the decoder's file. The spec's checksum takes the bytes most significant
  bit first, from the initial value, with no final XOR.
\<close>

definition crc16_shift :: "uint16_t \<Rightarrow> uint16_t \<Rightarrow> uint16_t" where
  "crc16_shift polynomial remainder =
     (if remainder AND 0x8000 \<noteq> 0 then push_bit 1 remainder XOR polynomial
      else push_bit 1 remainder)"

definition crc16_byte :: "uint16_t \<Rightarrow> uint8_t \<Rightarrow> uint16_t \<Rightarrow> uint16_t" where
  "crc16_byte polynomial b remainder =
     fold (\<lambda>_. crc16_shift polynomial) [0..<8::nat] (remainder XOR push_bit 8 (ucast b))"

definition crc16 :: "uint8_t list \<Rightarrow> nat \<Rightarrow> uint16_t \<Rightarrow> uint16_t \<Rightarrow> uint16_t" where
  "crc16 message nBytes polynomial init = fold (crc16_byte polynomial) (take nBytes message) init"

subsection \<open>Formatting\<close>

definition digit_char :: "nat \<Rightarrow> char" where
  "digit_char d = ''0123456789abcdef'' ! (d mod 16)"

text \<open>\<^verbatim>\<open>sprintf("%02x")\<close> of one byte.\<close>

definition hex2 :: "uint8_t \<Rightarrow> string" where
  "hex2 b = [digit_char (unat b div 16), digit_char (unat b mod 16)]"

text \<open>The loops that print the first 12 bytes of the frame.\<close>

definition frame_hex :: "uint8_t list \<Rightarrow> string" where
  "frame_hex frame = concat (map (\<lambda>i. hex2 (frame ! i)) [0..<12])"

text \<open>\<^verbatim>\<open>sprintf("%llu")\<close>.\<close>

fun decimal :: "nat \<Rightarrow> string" where
  "decimal n = (if n < 10 then [digit_char n] else decimal (n div 10) @ [digit_char (n mod 10)])"

declare decimal.simps [simp del]

text \<open>Lines 66 to 74: the clock reading in milliseconds, as a decimal string.\<close>

definition millis :: "timespec \<Rightarrow> uint64_t" where
  "millis tms =
     (let m = word_of_int (tv_sec tms * 1000) + word_of_int (tv_nsec tms div 1000000)
      in if tv_nsec tms mod 1000000 \<ge> 500 then m + 1 else m)"

definition timestamp :: "timespec \<Rightarrow> string" where
  "timestamp tms = decimal (unat (millis tms))"

subsection \<open>Dewhitening (lines 114 to 116)\<close>

text \<open>
  \<^verbatim>\<open>for (i = 0; i < sizeof(frame); ++i) frame[i] ^= whitening[i];\<close> from index \<open>i\<close> on.
  The bound is the size of the frame buffer. The loop returns the buffer and, in order,
  the indices at which it read the whitening table.
\<close>

function dewhiten_from :: "platform \<Rightarrow> nat \<Rightarrow> uint8_t list \<times> nat list \<Rightarrow> uint8_t list \<times> nat list" where
  "dewhiten_from pf i (frame, reads) =
     (if i < length frame
      then dewhiten_from pf (Suc i) (frame[i := frame ! i XOR whitening_at pf i], reads @ [i])
      else (frame, reads))"
  by pat_completeness auto
termination
  by (relation "measure (\<lambda>(pf, i, frame, reads). length frame - i)") auto

declare dewhiten_from.simps [simp del]

definition dewhiten :: "platform \<Rightarrow> uint8_t list \<Rightarrow> uint8_t list \<times> nat list" where
  "dewhiten pf frame = dewhiten_from pf 0 (frame, [])"

subsection \<open>The fields (lines 118 to 141)\<close>

definition msgno :: "uint8_t list \<Rightarrow> uint8_t" where
  "msgno frame = drop_bit 4 (frame ! 0 AND 0x30)"

text \<open>
  The bytes are promoted to 32-bit \<^verbatim>\<open>int\<close> before they are shifted; the result is
  stored in a \<^verbatim>\<open>uint32_t\<close>.
\<close>

definition emitcode :: "uint8_t list \<Rightarrow> uint32_t" where
  "emitcode frame =
     push_bit 24 (ucast (frame ! 5)) OR push_bit 16 (ucast (frame ! 4))
       OR push_bit 8 (ucast (frame ! 3)) OR ucast (frame ! 2)"

definition epostcode :: "uint8_t list \<Rightarrow> uint8_t" where
  "epostcode frame = frame ! 6"

definition time_ms :: "uint8_t list \<Rightarrow> uint16_t" where
  "time_ms frame = ucast (frame ! 7) OR push_bit 8 (ucast (frame ! 8))"

definition time_overflows :: "uint8_t list \<Rightarrow> uint8_t" where
  "time_overflows frame = frame ! 9"

definition combitime_ms :: "uint8_t list \<Rightarrow> uint32_t" where
  "combitime_ms frame = ucast (time_overflows frame) * 65536 + ucast (time_ms frame)"

definition ms :: "uint8_t list \<Rightarrow> uint16_t" where
  "ms frame = ucast (combitime_ms frame mod 1000)"

definition secs :: "uint8_t list \<Rightarrow> uint16_t" where
  "secs frame = ucast ((combitime_ms frame - ucast (ms frame)) div 1000 mod 60)"

definition mins :: "uint8_t list \<Rightarrow> uint16_t" where
  "mins frame = ucast (((combitime_ms frame - ucast (ms frame)) div 1000) div 60)"

definition resend :: "uint8_t list \<Rightarrow> uint8_t" where
  "resend frame = (if frame ! 0 AND 0x0F = 15 then 1 else 0)"

definition crc :: "uint8_t list \<Rightarrow> uint16_t" where
  "crc frame = crc16 frame 10 0x8005 0xffff"

text \<open>The left side of the comparison in line 141, an \<^verbatim>\<open>int\<close>.\<close>

definition trailer :: "uint8_t list \<Rightarrow> uint32_t" where
  "trailer frame = push_bit 8 (ucast (frame ! (9 + 1))) OR ucast (frame ! (9 + 2))"

text \<open>The value that the log line of line 142 prints for the trailer.\<close>

definition logged_trailer :: "uint8_t list \<Rightarrow> uint32_t" where
  "logged_trailer frame = push_bit 8 (ucast (frame ! (10 + 1))) OR ucast (frame ! (10 + 2))"

subsection \<open>The record (lines 151 to 164)\<close>

definition data_make :: "string \<Rightarrow> string \<Rightarrow> string \<Rightarrow> uint8_t list \<Rightarrow> data_t" where
  "data_make frame_str nonw_frame_str stamp frame =
     [(''model'', '''', DATA_STRING ''Emit-ePost''),
      (''raw'', ''Raw data'', DATA_STRING frame_str),
      (''nonw_raw'', ''Whitened raw data'', DATA_STRING nonw_frame_str),
      (''emitcode'', ''Emit card code'', DATA_INT (sint (emitcode frame))),
      (''epostcode'', ''Emit ePost code'', DATA_INT (uint (epostcode frame))),
      (''timemins'', ''Emit time minutes'', DATA_INT (uint (mins frame))),
      (''timesecs'', ''Emit time secs'', DATA_INT (uint (secs frame))),
      (''timems'', ''Emit time millisecs'', DATA_INT (uint (ms frame))),
      (''resend'', ''Resent data'', DATA_INT (uint (resend frame))),
      (''time'', ''Received time'', DATA_STRING stamp),
      (''mic'', ''Integrity'', DATA_STRING ''CRC'')]"

subsection \<open>The decoder\<close>

definition msg_not_1_row :: string where
  "msg_not_1_row = ''ePost: Not 1 row'' @ [CHR 0x0A]"

definition msg_no_preamble :: string where
  "msg_no_preamble = ''ePost: No preamble detected'' @ [CHR 0x0A]"

definition msg_min_length :: string where
  "msg_min_length = ''ePost: Min length failed'' @ [CHR 0x0A]"

definition msg_msgno :: string where
  "msg_msgno = ''Message no. too large (%d), drop it'' @ [CHR 0x0A]"

definition msg_crc :: string where
  "msg_crc = ''CRC invalid %04x != %04x'' @ [CHR 0x0A]"

definition emit_epost_decode :: "decode_return_codes \<Rightarrow> platform \<Rightarrow> bitbuffer_t \<Rightarrow> int \<times> event list" where
  "emit_epost_decode rc pf bitbuffer =
     (case clock_result pf of
        None \<Rightarrow> (- 1, [Clock_gettime])
      | Some tms \<Rightarrow>
          if num_rows bitbuffer < 1 then
            (DECODE_ABORT_EARLY rc, [Clock_gettime, Decoder_logf 0 msg_not_1_row []])
          else
            let row = 0;
                start_pos = bitbuffer_search bitbuffer row 0 preamble (length preamble * 8);
                searched = [Clock_gettime, Bitbuffer_search row 0 (length preamble * 8)]
            in if start_pos = row_len bitbuffer row then
                 (DECODE_ABORT_EARLY rc, searched @ [Decoder_logf 2 msg_no_preamble []])
               else if row_len bitbuffer row < (10 + 8) * 8 then
                 (DECODE_ABORT_LENGTH rc, searched @ [Decoder_logf 0 msg_min_length []])
               else
                 let pos = start_pos + length preamble * 8;
                     raw_frame = bitbuffer_extract_bytes bitbuffer row pos (12 * 8) @ replicate 8 0;
                     nonw_frame_str = frame_hex raw_frame;
                     (frame, reads) = dewhiten pf raw_frame;
                     done = searched @ [Bitbuffer_extract_bytes row pos (12 * 8)]
                              @ map Whitening_read reads
                 in if msgno frame > 3 then
                      (DECODE_FAIL_SANITY rc,
                       done @ [Decoder_logf 1 msg_msgno [uint (msgno frame)]])
                    else if trailer frame \<noteq> ucast (crc frame) then
                      (DECODE_FAIL_MIC rc,
                       done @ [Decoder_logf 1 msg_crc [sint (logged_trailer frame), uint (crc frame)]])
                    else
                      (1, done @ [Decoder_output_data
                                    (data_make (frame_hex frame) nonw_frame_str (timestamp tms) frame)]))"

subsection \<open>Reading the decoder's run\<close>

text \<open>
  The values of the locals \<^verbatim>\<open>start_pos\<close> and \<^verbatim>\<open>frame\<close> on an input: the answer of the
  search, the 20-byte buffer after the extraction, and the buffer after the whitening
  loop.
\<close>

definition start_pos :: "bitbuffer_t \<Rightarrow> nat" where
  "start_pos bitbuffer = bitbuffer_search bitbuffer 0 0 preamble (length preamble * 8)"

definition raw_frame :: "bitbuffer_t \<Rightarrow> uint8_t list" where
  "raw_frame bitbuffer =
     bitbuffer_extract_bytes bitbuffer 0 (start_pos bitbuffer + length preamble * 8) (12 * 8)
       @ replicate 8 0"

definition working_frame :: "platform \<Rightarrow> bitbuffer_t \<Rightarrow> uint8_t list" where
  "working_frame pf bitbuffer = fst (dewhiten pf (raw_frame bitbuffer))"

text \<open>The records handed to \<^verbatim>\<open>decoder_output_data\<close> during a run.\<close>

fun records :: "event list \<Rightarrow> data_t list" where
  "records [] = []"
| "records (Decoder_output_data d # es) = d # records es"
| "records (e # es) = records es"

text \<open>The calls of \<^verbatim>\<open>bitbuffer_extract_bytes\<close> during a run: row, bit position, bit count.\<close>

fun extract_calls :: "event list \<Rightarrow> (nat \<times> nat \<times> nat) list" where
  "extract_calls [] = []"
| "extract_calls (Bitbuffer_extract_bytes row pos len # es) = (row, pos, len) # extract_calls es"
| "extract_calls (e # es) = extract_calls es"

text \<open>The indices at which a run read the whitening table, in order.\<close>

fun whitening_reads :: "event list \<Rightarrow> nat list" where
  "whitening_reads [] = []"
| "whitening_reads (Whitening_read i # es) = i # whitening_reads es"
| "whitening_reads (e # es) = whitening_reads es"

text \<open>
  The terminal failure states of the spec's state machine, told apart by the log line
  that the decoder writes last, just before it returns.
\<close>

datatype failure_state = NO_DATA | NO_MARKER | TOO_SHORT | SANITY_FAILED | INTEGRITY_FAILED

definition failure_of_msg :: "string \<Rightarrow> failure_state option" where
  "failure_of_msg msg =
     (if msg = msg_not_1_row then Some NO_DATA
      else if msg = msg_no_preamble then Some NO_MARKER
      else if msg = msg_min_length then Some TOO_SHORT
      else if msg = msg_msgno then Some SANITY_FAILED
      else if msg = msg_crc then Some INTEGRITY_FAILED
      else None)"

definition terminal_failure :: "event list \<Rightarrow> failure_state option" where
  "terminal_failure events =
     (case rev events of
        Decoder_logf level msg args # _ \<Rightarrow> failure_of_msg msg
      | _ \<Rightarrow> None)"

subsection \<open>Sample inputs\<close>

text \<open>The enumerators numbered from \<open>-1\<close> downwards, in the order of the record.\<close>

definition sample_codes :: decode_return_codes where
  "sample_codes = \<lparr>DECODE_ABORT_LENGTH = - 1, DECODE_ABORT_EARLY = - 2,
                    DECODE_FAIL_MIC = - 3, DECODE_FAIL_SANITY = - 4\<rparr>"

definition sample_platform :: platform where
  "sample_platform = \<lparr>clock_result = Some \<lparr>tv_sec = 1, tv_nsec = 2000600\<rparr>,
                       past_whitening = (\<lambda>_. 0)\<rparr>"

text \<open>A buffer without rows, and one row of eight zero bits.\<close>

definition no_rows :: bitbuffer_t where
  "no_rows = \<lparr>num_rows = 0, bits_per_row = [], bb = []\<rparr>"

definition noise_row :: bitbuffer_t where
  "noise_row = \<lparr>num_rows = 1, bits_per_row = [8], bb = [[0x00]]\<rparr>"

text \<open>One row that holds the marker and nothing else.\<close>

definition marker_only_row :: bitbuffer_t where
  "marker_only_row =
     \<lparr>num_rows = 1, bits_per_row = [48], bb = [[0xaa, 0xaa, 0xd3, 0x91, 0xd3, 0x91]]\<rparr>"

text \<open>
  One row of 144 bits: the marker and the whitened form of the frame
  \<open>1f 00 45 23 01 00 07 e8 03 01\<close> with its CRC \<open>cc e7\<close> (message 1, resent,
  card 0x00012345, unit 7, 1000 ms and one overflow).
\<close>

definition good_row :: bitbuffer_t where
  "good_row =
     \<lparr>num_rows = 1, bits_per_row = [144],
      bb = [[0xaa, 0xaa, 0xd3, 0x91, 0xd3, 0x91,
             0xe0, 0xe1, 0x58, 0xb9, 0xec, 0x85, 0x34, 0xcc, 0xe9, 0x7b, 0x1e, 0xde]]\<rparr>"

text \<open>The same row with the last bit of the trailer flipped.\<close>

definition bad_crc_row :: bitbuffer_t where
  "bad_crc_row =
     \<lparr>num_rows = 1, bits_per_row = [144],
      bb = [[0xaa, 0xaa, 0xd3, 0x91, 0xd3, 0x91,
             0xe0, 0xe1, 0x58, 0xb9, 0xec, 0x85, 0x34, 0xcc, 0xe9, 0x7b, 0x1e, 0xdf]]\<rparr>"

text \<open>
  A transmission cut off after 144 bits: the full 32-bit preamble, the sync word and
  only the first ten bytes of the whitened frame.
\<close>

definition truncated_row :: bitbuffer_t where
  "truncated_row =
     \<lparr>num_rows = 1, bits_per_row = [144],
      bb = [[0xaa, 0xaa, 0xaa, 0xaa, 0xd3, 0x91, 0xd3, 0x91,
             0xe0, 0xe1, 0x58, 0xb9, 0xec, 0x85, 0x34, 0xcc, 0xe9, 0x7b]]\<rparr>"

section \<open>Properties\<close>

subsection \<open>The whitening loop\<close>

lemma dewhiten_from_length:
  "length (fst (dewhiten_from pf i (frame, reads))) = length frame"
proof (induction pf i "(frame, reads)" arbitrary: frame reads rule: dewhiten_from.induct)
  case (1 pf i frame reads)
  show ?case
  proof (cases "i < length frame")
    case True
    with 1 show ?thesis by (subst dewhiten_from.simps) simp
  next
    case False
    then show ?thesis by (subst dewhiten_from.simps) simp
  qed
qed

lemma dewhiten_from_nth:
  "j < length frame \<Longrightarrow>
   fst (dewhiten_from pf i (frame, reads)) ! j =
     (if i \<le> j then frame ! j XOR whitening_at pf j else frame ! j)"
proof (induction pf i "(frame, reads)" arbitrary: frame reads rule: dewhiten_from.induct)
  case (1 pf i frame reads)
  show ?case
  proof (cases "i < length frame")
    case True
    with 1 show ?thesis
      by (subst dewhiten_from.simps) (cases "j = i"; simp)
  next
    case False
    with 1 show ?thesis by (subst dewhiten_from.simps) simp
  qed
qed

lemma dewhiten_from_reads:
  "snd (dewhiten_from pf i (frame, reads)) = reads @ [i..<length frame]"
proof (induction pf i "(frame, reads)" arbitrary: frame reads rule: dewhiten_from.induct)
  case (1 pf i frame reads)
  show ?case
  proof (cases "i < length frame")
    case True
    with 1 show ?thesis
      by (subst dewhiten_from.simps) (simp add: upt_conv_Cons)
  next
    case False
    then show ?thesis by (subst dewhiten_from.simps) simp
  qed
qed

lemma dewhiten_length: "length (fst (dewhiten pf frame)) = length frame"
  by (simp add: dewhiten_def dewhiten_from_length)

lemma dewhiten_nth:
  "j < length frame \<Longrightarrow> fst (dewhiten pf frame) ! j = frame ! j XOR whitening_at pf j"
  by (simp add: dewhiten_def dewhiten_from_nth)

lemma dewhiten_reads: "snd (dewhiten pf frame) = [0..<length frame]"
  by (simp add: dewhiten_def dewhiten_from_reads)

subsection \<open>Bytes put together by shifts\<close>

lemma push_bit_or_add:
  fixes a b :: nat
  assumes "a < 2 ^ n"
  shows "push_bit n b OR a = b * 2 ^ n + a"
proof -
  have "\<not> bit (push_bit n b) k \<or> \<not> bit a k" for k
  proof (cases "n \<le> k")
    case True
    then have "(2::nat) ^ n \<le> 2 ^ k" by simp
    with assms have "a < 2 ^ k" by linarith
    then show ?thesis by (simp add: bit_iff_odd)
  next
    case False
    then show ?thesis by (simp add: bit_push_bit_iff)
  qed
  then have "push_bit n b + a = push_bit n b OR a" by (rule disjunctive_add)
  then show ?thesis by (simp add: push_bit_eq_mult)
qed

lemma unat_byte_lt: "unat (b :: uint8_t) < 256"
  using unsigned_less [of b] by simp

lemma unat_ucast32: "unat (ucast (b :: uint8_t) :: uint32_t) = unat b"
  using unat_byte_lt [of b] by (simp add: unsigned_ucast_eq take_bit_nat_eq_self)

lemma unat_ucast16: "unat (ucast (b :: uint8_t) :: uint16_t) = unat b"
  using unat_byte_lt [of b] by (simp add: unsigned_ucast_eq take_bit_nat_eq_self)

lemma unat_push_ucast32:
  "n \<le> 24 \<Longrightarrow> unat (push_bit n (ucast (b :: uint8_t)) :: uint32_t) = push_bit n (unat b)"
proof -
  assume n: "n \<le> 24"
  have "unat b * 2 ^ n < 256 * 2 ^ n" using unat_byte_lt [of b] by simp
  also have "\<dots> = 2 ^ (8 + n)" by (simp add: power_add)
  also have "\<dots> \<le> (2::nat) ^ 32" using n by (intro power_increasing) simp_all
  finally have "push_bit n (unat b) < (2::nat) ^ 32" by (simp add: push_bit_eq_mult)
  then show ?thesis
    by (simp add: unsigned_push_bit_eq unat_ucast32 take_bit_nat_eq_self)
qed

lemma emitcode_unat:
  "unat (emitcode frame) =
     unat (frame ! 5) * 2 ^ 24 + unat (frame ! 4) * 2 ^ 16 + unat (frame ! 3) * 2 ^ 8
       + unat (frame ! 2)"
proof -
  let ?b2 = "unat (frame ! 2)" and ?b3 = "unat (frame ! 3)"
  and ?b4 = "unat (frame ! 4)" and ?b5 = "unat (frame ! 5)"
  have b: "?b2 < 256" "?b3 < 256" "?b4 < 256" "?b5 < 256" by (rule unat_byte_lt)+
  have 1: "push_bit 8 ?b3 OR ?b2 = ?b3 * 2 ^ 8 + ?b2"
    using b by (intro push_bit_or_add) simp
  have 2: "push_bit 16 ?b4 OR (?b3 * 2 ^ 8 + ?b2) = ?b4 * 2 ^ 16 + (?b3 * 2 ^ 8 + ?b2)"
    using b by (intro push_bit_or_add) simp
  have 3: "push_bit 24 ?b5 OR (?b4 * 2 ^ 16 + (?b3 * 2 ^ 8 + ?b2))
             = ?b5 * 2 ^ 24 + (?b4 * 2 ^ 16 + (?b3 * 2 ^ 8 + ?b2))"
    using b by (intro push_bit_or_add) simp
  have "unat (emitcode frame) = push_bit 24 ?b5 OR push_bit 16 ?b4 OR push_bit 8 ?b3 OR ?b2"
    by (simp add: emitcode_def unsigned_or_eq unat_push_ucast32 unat_ucast32)
  with 1 2 3 show ?thesis by simp
qed

lemma msgno_unat: "unat (msgno frame) = unat (frame ! 0) div 16 mod 4"
proof -
  have "unat (msgno frame) = drop_bit 4 (unat (frame ! 0) AND 48)"
    by (simp add: msgno_def unat_drop_bit_eq unsigned_and_eq)
  also have "\<dots> = drop_bit 4 (unat (frame ! 0)) AND drop_bit 4 48"
    by (simp add: drop_bit_and)
  also have "drop_bit 4 (48::nat) = mask 2" by (simp add: drop_bit_eq_div mask_eq_exp_minus_1)
  also have "drop_bit 4 (unat (frame ! 0)) AND mask 2 = unat (frame ! 0) div 16 mod 4"
    by (simp add: take_bit_eq_mask [symmetric] take_bit_eq_mod drop_bit_eq_div)
  finally show ?thesis .
qed

lemma msgno_le: "msgno frame \<le> 3"
proof -
  have "unat (msgno frame) \<le> 3" by (simp add: msgno_unat)
  then show ?thesis by (simp add: word_le_nat_alt)
qed

lemma low_nibble_unat: "unat ((b :: uint8_t) AND 0x0F) = unat b mod 16"
proof -
  have "unat b AND mask 4 = unat b mod 2 ^ 4"
    by (simp add: take_bit_eq_mask [symmetric] take_bit_eq_mod)
  moreover have "(mask 4 :: nat) = 15" by (simp add: mask_eq_exp_minus_1)
  ultimately have "unat b AND 15 = unat b mod 16" by simp
  then show ?thesis by (simp add: unsigned_and_eq)
qed

lemma resend_iff: "resend frame = 1 \<longleftrightarrow> unat (frame ! 0) mod 16 = 15"
proof -
  have "frame ! 0 AND 0x0F = 15 \<longleftrightarrow> unat (frame ! 0 AND 0x0F) = 15"
    by (simp add: word_unat_eq_iff)
  then show ?thesis by (simp add: resend_def low_nibble_unat)
qed

lemma time_ms_unat: "unat (time_ms frame) = unat (frame ! 7) + 256 * unat (frame ! 8)"
proof -
  have b: "unat (frame ! 7) < 256" "unat (frame ! 8) < 256" by (rule unat_byte_lt)+
  have "unat (frame ! 8) * 2 ^ 8 < 256 * 2 ^ 8" using b by simp
  then have lt: "push_bit 8 (unat (frame ! 8)) < (2::nat) ^ 16" by (simp add: push_bit_eq_mult)
  have "unat (time_ms frame) = push_bit 8 (unat (frame ! 8)) OR unat (frame ! 7)"
    using lt by (simp add: time_ms_def unsigned_or_eq unsigned_push_bit_eq unat_ucast16
        take_bit_nat_eq_self or.commute)
  also have "\<dots> = unat (frame ! 8) * 2 ^ 8 + unat (frame ! 7)"
    using b by (intro push_bit_or_add) simp
  finally show ?thesis by simp
qed

lemma trailer_unat: "unat (trailer frame) = 256 * unat (frame ! 10) + unat (frame ! 11)"
proof -
  have b: "unat (frame ! 11) < 256" by (rule unat_byte_lt)
  have "unat (trailer frame) = push_bit 8 (unat (frame ! 10)) OR unat (frame ! 11)"
    by (simp add: trailer_def unsigned_or_eq unat_push_ucast32 unat_ucast32)
  also have "\<dots> = unat (frame ! 10) * 2 ^ 8 + unat (frame ! 11)"
    using b by (intro push_bit_or_add) simp
  finally show ?thesis by simp
qed

subsection \<open>The time fields\<close>

lemma time_overflows_lt: "unat (time_overflows frame) < 256"
  by (rule unat_byte_lt)

lemma unat_u16_lt: "unat (w :: uint16_t) < 65536"
  using unsigned_less [of w] by simp

lemma time_ms_lt: "unat (time_ms frame) < 65536"
  by (rule unat_u16_lt)

lemma combitime_ms_unat:
  "unat (combitime_ms frame) = unat (time_overflows frame) * 65536 + unat (time_ms frame)"
proof -
  let ?o = "ucast (time_overflows frame) :: uint32_t" and ?t = "ucast (time_ms frame) :: uint32_t"
  have o: "unat ?o = unat (time_overflows frame)" by (rule unat_ucast32)
  have t: "unat ?t = unat (time_ms frame)"
    using time_ms_lt [of frame] by (simp add: unsigned_ucast_eq take_bit_nat_eq_self)
  have "unat ?o * unat (65536 :: uint32_t) < 2 ^ LENGTH(32)"
    using time_overflows_lt [of frame] by (simp add: o)
  then have m: "unat (?o * 65536) = unat ?o * 65536"
    by (simp add: unat_mult_lem [THEN iffD1])
  have "unat (?o * 65536) + unat ?t < 2 ^ LENGTH(32)"
    using time_overflows_lt [of frame] time_ms_lt [of frame] by (simp add: m o t)
  then have "unat (?o * 65536 + ?t) = unat (?o * 65536) + unat ?t"
    by (simp add: unat_add_lem [THEN iffD1])
  then show ?thesis by (simp add: combitime_ms_def m o t)
qed

lemma ms_unat: "unat (ms frame) = unat (combitime_ms frame) mod 1000"
proof -
  have "unat (combitime_ms frame) mod 1000 < 1000" by simp
  also have "(1000::nat) \<le> 2 ^ 16" by simp
  finally have "unat (combitime_ms frame) mod 1000 < 2 ^ 16" .
  then show ?thesis
    by (simp add: ms_def unsigned_ucast_eq unat_mod take_bit_nat_eq_self)
qed

lemma ucast_ms_unat: "unat (ucast (ms frame) :: uint32_t) = unat (combitime_ms frame) mod 1000"
proof -
  have "unat (ms frame) < 65536" by (rule unat_u16_lt)
  also have "(65536::nat) \<le> 2 ^ 32" by simp
  finally have "unat (ms frame) < 2 ^ 32" .
  then show ?thesis
    by (simp add: unsigned_ucast_eq take_bit_nat_eq_self ms_unat)
qed

lemma whole_seconds_unat:
  "unat ((combitime_ms frame - ucast (ms frame)) div 1000) = unat (combitime_ms frame) div 1000"
proof -
  have "unat (ucast (ms frame) :: uint32_t) \<le> unat (combitime_ms frame)"
    by (simp add: ucast_ms_unat)
  then have "(ucast (ms frame) :: uint32_t) \<le> combitime_ms frame"
    by (simp add: word_le_nat_alt)
  then have "unat (combitime_ms frame - ucast (ms frame))
               = unat (combitime_ms frame) - unat (combitime_ms frame) mod 1000"
    by (simp add: unat_sub ucast_ms_unat)
  then show ?thesis by (simp add: unat_div minus_mod_eq_div_mult)
qed

lemma combitime_ms_lt: "unat (combitime_ms frame) < 16777216"
  using time_overflows_lt [of frame] time_ms_lt [of frame] by (simp add: combitime_ms_unat)

lemma secs_unat: "unat (secs frame) = unat (combitime_ms frame) div 1000 mod 60"
proof -
  have "unat (combitime_ms frame) div 1000 mod 60 < 60" by simp
  also have "(60::nat) \<le> 2 ^ 16" by simp
  finally have "unat (combitime_ms frame) div 1000 mod 60 < 2 ^ 16" .
  then show ?thesis
    by (simp add: secs_def unsigned_ucast_eq unat_mod whole_seconds_unat take_bit_nat_eq_self)
qed

lemma mins_unat: "unat (mins frame) = unat (combitime_ms frame) div 60000"
proof -
  let ?w = "(combitime_ms frame - ucast (ms frame)) div 1000"
  have "unat (?w div 60) = unat ?w div 60" by (simp add: unat_div)
  then have q: "unat (?w div 60) = unat (combitime_ms frame) div 60000"
    by (simp add: whole_seconds_unat div_mult2_eq [symmetric])
  have "unat (combitime_ms frame) div 60000 < 2 ^ 16"
    using combitime_ms_lt [of frame] by simp
  then have "take_bit 16 (unat (?w div 60)) = unat (combitime_ms frame) div 60000"
    by (simp add: q take_bit_nat_eq_self)
  then show ?thesis
    by (simp only: mins_def unsigned_ucast_eq) simp
qed

subsection \<open>The decoder by stages\<close>

lemma raw_frame_length: "length (raw_frame bitbuffer) = 20"
  by (simp add: raw_frame_def bitbuffer_extract_bytes_def)

lemma preamble_bits: "length preamble * 8 = 48"
  by (simp add: preamble_def)

lemma msgno_not_gt: "\<not> 3 < msgno frame"
  using msgno_le [of frame] by (simp add: not_less)

lemma emit_epost_decode_stages:
  "emit_epost_decode rc pf bitbuffer =
     (case clock_result pf of
        None \<Rightarrow> (- 1, [Clock_gettime])
      | Some tms \<Rightarrow>
          if num_rows bitbuffer < 1 then
            (DECODE_ABORT_EARLY rc, [Clock_gettime, Decoder_logf 0 msg_not_1_row []])
          else if start_pos bitbuffer = row_len bitbuffer 0 then
            (DECODE_ABORT_EARLY rc,
             [Clock_gettime, Bitbuffer_search 0 0 48, Decoder_logf 2 msg_no_preamble []])
          else if row_len bitbuffer 0 < 144 then
            (DECODE_ABORT_LENGTH rc,
             [Clock_gettime, Bitbuffer_search 0 0 48, Decoder_logf 0 msg_min_length []])
          else if trailer (working_frame pf bitbuffer) \<noteq> ucast (crc (working_frame pf bitbuffer)) then
            (DECODE_FAIL_MIC rc,
             [Clock_gettime, Bitbuffer_search 0 0 48,
              Bitbuffer_extract_bytes 0 (start_pos bitbuffer + 48) 96]
               @ map Whitening_read [0..<20]
               @ [Decoder_logf 1 msg_crc
                    [sint (logged_trailer (working_frame pf bitbuffer)),
                     uint (crc (working_frame pf bitbuffer))]])
          else
            (1,
             [Clock_gettime, Bitbuffer_search 0 0 48,
              Bitbuffer_extract_bytes 0 (start_pos bitbuffer + 48) 96]
               @ map Whitening_read [0..<20]
               @ [Decoder_output_data
                    (data_make (frame_hex (working_frame pf bitbuffer))
                       (frame_hex (raw_frame bitbuffer)) (timestamp tms)
                       (working_frame pf bitbuffer))]))"
proof -
  have reads: "snd (dewhiten pf (raw_frame bitbuffer)) = [0..<20]"
    by (simp add: dewhiten_reads raw_frame_length)
  show ?thesis
    unfolding emit_epost_decode_def Let_def split_def working_frame_def
    using reads [unfolded raw_frame_def start_pos_def]
    by (simp add: raw_frame_def start_pos_def preamble_bits msgno_not_gt split: option.split)
qed

subsection \<open>What a run returns, logs and calls\<close>

lemma records_append: "records (xs @ ys) = records xs @ records ys"
  by (induction xs rule: records.induct) simp_all

lemma records_reads: "records (map Whitening_read ns) = []"
  by (induction ns) simp_all

lemma extract_calls_append: "extract_calls (xs @ ys) = extract_calls xs @ extract_calls ys"
  by (induction xs rule: extract_calls.induct) simp_all

lemma extract_calls_reads: "extract_calls (map Whitening_read ns) = []"
  by (induction ns) simp_all

lemma whitening_reads_append:
  "whitening_reads (xs @ ys) = whitening_reads xs @ whitening_reads ys"
  by (induction xs rule: whitening_reads.induct) simp_all

lemma whitening_reads_reads: "whitening_reads (map Whitening_read ns) = ns"
  by (induction ns) simp_all

lemma count_clock_reads: "count_list (map Whitening_read ns) Clock_gettime = 0"
  by (induction ns) simp_all

lemma terminal_failure_snoc:
  "terminal_failure (es @ [e]) =
     (case e of Decoder_logf level msg args \<Rightarrow> failure_of_msg msg | _ \<Rightarrow> None)"
  by (simp add: terminal_failure_def split: event.split)

lemma terminal_failure_clock: "terminal_failure [Clock_gettime] = None"
  by (simp add: terminal_failure_def)

lemma failure_of_msgs:
  "failure_of_msg msg_not_1_row = Some NO_DATA"
  "failure_of_msg msg_no_preamble = Some NO_MARKER"
  "failure_of_msg msg_min_length = Some TOO_SHORT"
  "failure_of_msg msg_crc = Some INTEGRITY_FAILED"
  by (simp_all add: failure_of_msg_def msg_not_1_row_def msg_no_preamble_def
      msg_min_length_def msg_msgno_def msg_crc_def)

lemma terminal_failure_cases:
  "terminal_failure (snd (emit_epost_decode rc pf bitbuffer)) =
     (case clock_result pf of
        None \<Rightarrow> None
      | Some tms \<Rightarrow>
          if num_rows bitbuffer < 1 then Some NO_DATA
          else if start_pos bitbuffer = row_len bitbuffer 0 then Some NO_MARKER
          else if row_len bitbuffer 0 < 144 then Some TOO_SHORT
          else if trailer (working_frame pf bitbuffer) \<noteq> ucast (crc (working_frame pf bitbuffer))
          then Some INTEGRITY_FAILED
          else None)"
proof -
  have two: "terminal_failure [a, e] = terminal_failure ([a] @ [e])"
    and three: "terminal_failure [a, b, e] = terminal_failure ([a, b] @ [e])"
    and more: "terminal_failure ([a, b, c] @ ns @ [e]) = terminal_failure (([a, b, c] @ ns) @ [e])"
    for a b c e ns
    by simp_all
  show ?thesis
    by (simp add: emit_epost_decode_stages two three more terminal_failure_snoc
        terminal_failure_clock failure_of_msgs
        del: append.simps append_assoc split: option.split)
qed

lemma return_cases:
  "fst (emit_epost_decode rc pf bitbuffer) =
     (case clock_result pf of
        None \<Rightarrow> - 1
      | Some tms \<Rightarrow>
          if num_rows bitbuffer < 1 then DECODE_ABORT_EARLY rc
          else if start_pos bitbuffer = row_len bitbuffer 0 then DECODE_ABORT_EARLY rc
          else if row_len bitbuffer 0 < 144 then DECODE_ABORT_LENGTH rc
          else if trailer (working_frame pf bitbuffer) \<noteq> ucast (crc (working_frame pf bitbuffer))
          then DECODE_FAIL_MIC rc
          else 1)"
  by (simp add: emit_epost_decode_stages split: option.split)

lemma records_cases:
  "records (snd (emit_epost_decode rc pf bitbuffer)) =
     (case clock_result pf of
        None \<Rightarrow> []
      | Some tms \<Rightarrow>
          if num_rows bitbuffer < 1 \<or> start_pos bitbuffer = row_len bitbuffer 0
             \<or> row_len bitbuffer 0 < 144
             \<or> trailer (working_frame pf bitbuffer) \<noteq> ucast (crc (working_frame pf bitbuffer))
          then []
          else [data_make (frame_hex (working_frame pf bitbuffer))
                  (frame_hex (raw_frame bitbuffer)) (timestamp tms)
                  (working_frame pf bitbuffer)])"
  by (simp add: emit_epost_decode_stages records_append records_reads split: option.split)

lemma extract_calls_cases:
  "extract_calls (snd (emit_epost_decode rc pf bitbuffer)) =
     (case clock_result pf of
        None \<Rightarrow> []
      | Some tms \<Rightarrow>
          if num_rows bitbuffer < 1 \<or> start_pos bitbuffer = row_len bitbuffer 0
             \<or> row_len bitbuffer 0 < 144
          then []
          else [(0, start_pos bitbuffer + 48, 96)])"
  by (simp add: emit_epost_decode_stages extract_calls_append extract_calls_reads
      split: option.split)

lemma whitening_reads_cases:
  "whitening_reads (snd (emit_epost_decode rc pf bitbuffer)) =
     (case clock_result pf of
        None \<Rightarrow> []
      | Some tms \<Rightarrow>
          if num_rows bitbuffer < 1 \<or> start_pos bitbuffer = row_len bitbuffer 0
             \<or> row_len bitbuffer 0 < 144
          then []
          else [0..<20])"
  by (simp add: emit_epost_decode_stages whitening_reads_append whitening_reads_reads
      split: option.split)

lemma crc_match_iff:
  "trailer frame = ucast (crc frame) \<longleftrightarrow>
     unat (crc16 frame 10 0x8005 0xffff) = 256 * unat (frame ! 10) + unat (frame ! 11)"
proof -
  have "unat (crc frame) < 65536" by (rule unat_u16_lt)
  also have "(65536::nat) \<le> 2 ^ 32" by simp
  finally have "unat (ucast (crc frame) :: uint32_t) = unat (crc frame)"
    by (simp add: unsigned_ucast_eq take_bit_nat_eq_self)
  then have "trailer frame = ucast (crc frame) \<longleftrightarrow> unat (trailer frame) = unat (crc frame)"
    by (simp add: word_unat_eq_iff)
  then show ?thesis by (auto simp: trailer_unat crc_def)
qed

subsection \<open>The sample inputs evaluated\<close>

lemma sample_clock: "clock_result sample_platform = Some \<lparr>tv_sec = 1, tv_nsec = 2000600\<rparr>"
  by (simp add: sample_platform_def)

lemma start_pos_good_row: "start_pos good_row = 0"
  by code_simp

lemma start_pos_bad_crc_row: "start_pos bad_crc_row = 0"
  by code_simp

lemma start_pos_truncated_row: "start_pos truncated_row = 16"
  by code_simp

lemma start_pos_marker_only_row: "start_pos marker_only_row = 0"
  by code_simp

lemma start_pos_noise_row: "start_pos noise_row = 8"
  by code_simp

lemma row_len_samples:
  "row_len good_row 0 = 144" "row_len bad_crc_row 0 = 144" "row_len truncated_row 0 = 144"
  "row_len marker_only_row 0 = 48" "row_len noise_row 0 = 8" "row_len no_rows 0 = 0"
  by (simp_all add: row_len_def good_row_def bad_crc_row_def truncated_row_def
      marker_only_row_def noise_row_def no_rows_def)

lemma num_rows_samples:
  "num_rows good_row = 1" "num_rows bad_crc_row = 1" "num_rows truncated_row = 1"
  "num_rows marker_only_row = 1" "num_rows noise_row = 1" "num_rows no_rows = 0"
  by (simp_all add: good_row_def bad_crc_row_def truncated_row_def
      marker_only_row_def noise_row_def no_rows_def)

lemma replicate_8: "replicate 8 x = [x, x, x, x, x, x, x, x]"
  by (simp add: numeral_eq_Suc)

lemma extract_good_row:
  "bitbuffer_extract_bytes good_row 0 48 96 =
     [0xe0, 0xe1, 0x58, 0xb9, 0xec, 0x85, 0x34, 0xcc, 0xe9, 0x7b, 0x1e, 0xde]"
  by (simp add: good_row_def bitbuffer_extract_bytes_def bit_at_def byte_at_def row_bytes_def
      byte_of_bits_def upt_rec)

lemma extract_bad_crc_row:
  "bitbuffer_extract_bytes bad_crc_row 0 48 96 =
     [0xe0, 0xe1, 0x58, 0xb9, 0xec, 0x85, 0x34, 0xcc, 0xe9, 0x7b, 0x1e, 0xdf]"
  by (simp add: bad_crc_row_def bitbuffer_extract_bytes_def bit_at_def byte_at_def row_bytes_def
      byte_of_bits_def upt_rec)

lemma raw_frame_good_row:
  "raw_frame good_row =
     [0xe0, 0xe1, 0x58, 0xb9, 0xec, 0x85, 0x34, 0xcc, 0xe9, 0x7b, 0x1e, 0xde,
      0, 0, 0, 0, 0, 0, 0, 0]"
  by (simp add: raw_frame_def start_pos_good_row preamble_bits extract_good_row replicate_8)

lemma raw_frame_bad_crc_row:
  "raw_frame bad_crc_row =
     [0xe0, 0xe1, 0x58, 0xb9, 0xec, 0x85, 0x34, 0xcc, 0xe9, 0x7b, 0x1e, 0xdf,
      0, 0, 0, 0, 0, 0, 0, 0]"
  by (simp add: raw_frame_def start_pos_bad_crc_row preamble_bits extract_bad_crc_row replicate_8)

lemma working_frame_good_row:
  "working_frame sample_platform good_row =
     [0x1f, 0x00, 0x45, 0x23, 0x01, 0x00, 0x07, 0xe8, 0x03, 0x01, 0xcc, 0xe7,
      0x70, 0x97, 0x57, 0x0a, 0x54, 0x7d, 0, 0]"
  by (simp add: working_frame_def raw_frame_good_row dewhiten_def dewhiten_from.simps
      whitening_at_def whitening_def sample_platform_def)

lemma working_frame_bad_crc_row:
  "working_frame sample_platform bad_crc_row =
     [0x1f, 0x00, 0x45, 0x23, 0x01, 0x00, 0x07, 0xe8, 0x03, 0x01, 0xcc, 0xe6,
      0x70, 0x97, 0x57, 0x0a, 0x54, 0x7d, 0, 0]"
  by (simp add: working_frame_def raw_frame_bad_crc_row dewhiten_def dewhiten_from.simps
      whitening_at_def whitening_def sample_platform_def)

lemma crc16_sample:
  "crc16 [0x1f, 0x00, 0x45, 0x23, 0x01, 0x00, 0x07, 0xe8, 0x03, 0x01, 0xcc, 0xe7,
          0x70, 0x97, 0x57, 0x0a, 0x54, 0x7d, 0, 0] 10 0x8005 0xffff = 0xcce7"
  "crc16 [0x1f, 0x00, 0x45, 0x23, 0x01, 0x00, 0x07, 0xe8, 0x03, 0x01, 0xcc, 0xe6,
          0x70, 0x97, 0x57, 0x0a, 0x54, 0x7d, 0, 0] 10 0x8005 0xffff = 0xcce7"
  by (simp_all add: crc16_def crc16_byte_def crc16_shift_def upt_rec)

section \<open>The claims\<close>

text \<open>
  C1. Once the clock has been read, the buffer has a row, the marker has been found and
  the row has at least 144 bits, a record is output if and only if the CRC-16
  (polynomial 0x8005, initial value 0xFFFF) of the first 10 bytes of the dewhitened
  frame equals the big-endian value of bytes 10 and 11. If they differ, the decoder
  returns \<open>DECODE_FAIL_MIC\<close> and outputs no record; if they agree, it returns 1 and
  outputs exactly one record, built from that frame.
\<close>

theorem crc_decides_emission:
  assumes "clock_result pf = Some tms"
    and "\<not> num_rows bitbuffer < 1"
    and "start_pos bitbuffer \<noteq> row_len bitbuffer 0"
    and "\<not> row_len bitbuffer 0 < 144"
  shows "(records (snd (emit_epost_decode rc pf bitbuffer)) \<noteq> [] \<longleftrightarrow>
            unat (crc16 (working_frame pf bitbuffer) 10 0x8005 0xffff)
              = 256 * unat (working_frame pf bitbuffer ! 10) + unat (working_frame pf bitbuffer ! 11))
       \<and> (unat (crc16 (working_frame pf bitbuffer) 10 0x8005 0xffff)
              \<noteq> 256 * unat (working_frame pf bitbuffer ! 10) + unat (working_frame pf bitbuffer ! 11)
            \<longrightarrow> fst (emit_epost_decode rc pf bitbuffer) = DECODE_FAIL_MIC rc
              \<and> terminal_failure (snd (emit_epost_decode rc pf bitbuffer)) = Some INTEGRITY_FAILED
              \<and> records (snd (emit_epost_decode rc pf bitbuffer)) = [])
       \<and> (unat (crc16 (working_frame pf bitbuffer) 10 0x8005 0xffff)
              = 256 * unat (working_frame pf bitbuffer ! 10) + unat (working_frame pf bitbuffer ! 11)
            \<longrightarrow> fst (emit_epost_decode rc pf bitbuffer) = 1
              \<and> records (snd (emit_epost_decode rc pf bitbuffer))
                  = [data_make (frame_hex (working_frame pf bitbuffer))
                       (frame_hex (raw_frame bitbuffer)) (timestamp tms)
                       (working_frame pf bitbuffer)])"
  using assms
  by (simp add: records_cases return_cases terminal_failure_cases
      crc_match_iff [of "working_frame pf bitbuffer"])

text \<open>
  The frame of \<open>good_row\<close> carries its CRC and is output; the frame of \<open>bad_crc_row\<close>
  differs in one bit of the trailer and is rejected.
\<close>

theorem crc_decides_emission_witness:
  "clock_result sample_platform = Some \<lparr>tv_sec = 1, tv_nsec = 2000600\<rparr>
   \<and> \<not> num_rows good_row < 1 \<and> start_pos good_row \<noteq> row_len good_row 0
   \<and> \<not> row_len good_row 0 < 144
   \<and> unat (crc16 (working_frame sample_platform good_row) 10 0x8005 0xffff)
        = 256 * unat (working_frame sample_platform good_row ! 10)
          + unat (working_frame sample_platform good_row ! 11)
   \<and> fst (emit_epost_decode sample_codes sample_platform good_row) = 1
   \<and> records (snd (emit_epost_decode sample_codes sample_platform good_row)) \<noteq> []
   \<and> \<not> num_rows bad_crc_row < 1 \<and> start_pos bad_crc_row \<noteq> row_len bad_crc_row 0
   \<and> \<not> row_len bad_crc_row 0 < 144
   \<and> unat (crc16 (working_frame sample_platform bad_crc_row) 10 0x8005 0xffff)
        \<noteq> 256 * unat (working_frame sample_platform bad_crc_row ! 10)
          + unat (working_frame sample_platform bad_crc_row ! 11)
   \<and> fst (emit_epost_decode sample_codes sample_platform bad_crc_row)
        = DECODE_FAIL_MIC sample_codes
   \<and> records (snd (emit_epost_decode sample_codes sample_platform bad_crc_row)) = []"
proof -
  have g1: "\<not> num_rows good_row < 1" by (simp add: num_rows_samples)
  have g2: "start_pos good_row \<noteq> row_len good_row 0"
    by (simp add: start_pos_good_row row_len_samples)
  have g3: "\<not> row_len good_row 0 < 144" by (simp add: row_len_samples)
  have g4: "unat (crc16 (working_frame sample_platform good_row) 10 0x8005 0xffff)
        = 256 * unat (working_frame sample_platform good_row ! 10)
          + unat (working_frame sample_platform good_row ! 11)"
    by (simp add: working_frame_good_row crc16_sample)
  have b1: "\<not> num_rows bad_crc_row < 1" by (simp add: num_rows_samples)
  have b2: "start_pos bad_crc_row \<noteq> row_len bad_crc_row 0"
    by (simp add: start_pos_bad_crc_row row_len_samples)
  have b3: "\<not> row_len bad_crc_row 0 < 144" by (simp add: row_len_samples)
  have b4: "unat (crc16 (working_frame sample_platform bad_crc_row) 10 0x8005 0xffff)
        \<noteq> 256 * unat (working_frame sample_platform bad_crc_row ! 10)
          + unat (working_frame sample_platform bad_crc_row ! 11)"
    by (simp add: working_frame_bad_crc_row crc16_sample)
  show ?thesis
    using crc_decides_emission [OF sample_clock g1 g2 g3, of sample_codes]
      crc_decides_emission [OF sample_clock b1 b2 b3, of sample_codes]
      sample_clock g1 g2 g3 g4 b1 b2 b3 b4
    by blast
qed

text \<open>
  C2, as stated, fails: a buffer without rows ends in the no-data state, a row without
  the marker ends in the no-marker state, and the decoder returns the same value,
  \<open>DECODE_ABORT_EARLY\<close>, for both.
\<close>

theorem failure_kinds_counterexample:
  "terminal_failure (snd (emit_epost_decode sample_codes sample_platform no_rows)) = Some NO_DATA
   \<and> terminal_failure (snd (emit_epost_decode sample_codes sample_platform noise_row))
        = Some NO_MARKER
   \<and> fst (emit_epost_decode sample_codes sample_platform no_rows)
        = fst (emit_epost_decode sample_codes sample_platform noise_row)"
  by code_simp

text \<open>
  C2, amended. The decoder returns \<open>DECODE_ABORT_EARLY\<close> for the no-data and the
  no-marker state, \<open>DECODE_ABORT_LENGTH\<close> for a row that is too short,
  \<open>DECODE_FAIL_SANITY\<close> for a failed sanity check and \<open>DECODE_FAIL_MIC\<close> for a failed
  integrity check. With four distinct enumerators, two inputs that end in different
  terminal failure states return different values, unless the two states are no-data
  and no-marker.
\<close>

theorem failure_kinds_distinguished:
  assumes "distinct [DECODE_ABORT_LENGTH rc, DECODE_ABORT_EARLY rc, DECODE_FAIL_MIC rc,
                     DECODE_FAIL_SANITY rc]"
    and "terminal_failure (snd (emit_epost_decode rc pf1 b1)) = Some s1"
    and "terminal_failure (snd (emit_epost_decode rc pf2 b2)) = Some s2"
    and "s1 \<noteq> s2"
    and "{s1, s2} \<noteq> {NO_DATA, NO_MARKER}"
  shows "fst (emit_epost_decode rc pf1 b1) \<noteq> fst (emit_epost_decode rc pf2 b2)
       \<and> fst (emit_epost_decode rc pf1 b1) =
           (case s1 of NO_DATA \<Rightarrow> DECODE_ABORT_EARLY rc | NO_MARKER \<Rightarrow> DECODE_ABORT_EARLY rc
            | TOO_SHORT \<Rightarrow> DECODE_ABORT_LENGTH rc | SANITY_FAILED \<Rightarrow> DECODE_FAIL_SANITY rc
            | INTEGRITY_FAILED \<Rightarrow> DECODE_FAIL_MIC rc)
       \<and> fst (emit_epost_decode rc pf2 b2) =
           (case s2 of NO_DATA \<Rightarrow> DECODE_ABORT_EARLY rc | NO_MARKER \<Rightarrow> DECODE_ABORT_EARLY rc
            | TOO_SHORT \<Rightarrow> DECODE_ABORT_LENGTH rc | SANITY_FAILED \<Rightarrow> DECODE_FAIL_SANITY rc
            | INTEGRITY_FAILED \<Rightarrow> DECODE_FAIL_MIC rc)"
proof -
  have ret: "fst (emit_epost_decode rc pf b) =
           (case s of NO_DATA \<Rightarrow> DECODE_ABORT_EARLY rc | NO_MARKER \<Rightarrow> DECODE_ABORT_EARLY rc
            | TOO_SHORT \<Rightarrow> DECODE_ABORT_LENGTH rc | SANITY_FAILED \<Rightarrow> DECODE_FAIL_SANITY rc
            | INTEGRITY_FAILED \<Rightarrow> DECODE_FAIL_MIC rc)"
    if "terminal_failure (snd (emit_epost_decode rc pf b)) = Some s" for pf b s
    using that
    by (auto simp: terminal_failure_cases return_cases split: option.splits if_splits)
  have r1: "fst (emit_epost_decode rc pf1 b1) =
           (case s1 of NO_DATA \<Rightarrow> DECODE_ABORT_EARLY rc | NO_MARKER \<Rightarrow> DECODE_ABORT_EARLY rc
            | TOO_SHORT \<Rightarrow> DECODE_ABORT_LENGTH rc | SANITY_FAILED \<Rightarrow> DECODE_FAIL_SANITY rc
            | INTEGRITY_FAILED \<Rightarrow> DECODE_FAIL_MIC rc)"
    using assms(2) by (rule ret)
  have r2: "fst (emit_epost_decode rc pf2 b2) =
           (case s2 of NO_DATA \<Rightarrow> DECODE_ABORT_EARLY rc | NO_MARKER \<Rightarrow> DECODE_ABORT_EARLY rc
            | TOO_SHORT \<Rightarrow> DECODE_ABORT_LENGTH rc | SANITY_FAILED \<Rightarrow> DECODE_FAIL_SANITY rc
            | INTEGRITY_FAILED \<Rightarrow> DECODE_FAIL_MIC rc)"
    using assms(3) by (rule ret)
  have "fst (emit_epost_decode rc pf1 b1) \<noteq> fst (emit_epost_decode rc pf2 b2)"
    unfolding r1 r2 using assms(1,4,5)
    by (cases s1; cases s2) (auto simp: doubleton_eq_iff)
  with r1 r2 show ?thesis by simp
qed

theorem failure_kinds_distinguished_witness:
  "distinct [DECODE_ABORT_LENGTH sample_codes, DECODE_ABORT_EARLY sample_codes,
             DECODE_FAIL_MIC sample_codes, DECODE_FAIL_SANITY sample_codes]
   \<and> terminal_failure (snd (emit_epost_decode sample_codes sample_platform noise_row))
        = Some NO_MARKER
   \<and> terminal_failure (snd (emit_epost_decode sample_codes sample_platform marker_only_row))
        = Some TOO_SHORT
   \<and> NO_MARKER \<noteq> TOO_SHORT \<and> {NO_MARKER, TOO_SHORT} \<noteq> {NO_DATA, NO_MARKER}
   \<and> fst (emit_epost_decode sample_codes sample_platform noise_row)
        \<noteq> fst (emit_epost_decode sample_codes sample_platform marker_only_row)"
proof -
  have d: "distinct [DECODE_ABORT_LENGTH sample_codes, DECODE_ABORT_EARLY sample_codes,
             DECODE_FAIL_MIC sample_codes, DECODE_FAIL_SANITY sample_codes]"
    by (simp add: sample_codes_def)
  have t1: "terminal_failure (snd (emit_epost_decode sample_codes sample_platform noise_row))
        = Some NO_MARKER" by code_simp
  have t2: "terminal_failure (snd (emit_epost_decode sample_codes sample_platform marker_only_row))
        = Some TOO_SHORT" by code_simp
  have n: "NO_MARKER \<noteq> TOO_SHORT" by simp
  have p: "{NO_MARKER, TOO_SHORT} \<noteq> {NO_DATA, NO_MARKER}" by (simp add: doubleton_eq_iff)
  show ?thesis
    using failure_kinds_distinguished [OF d t1 t2 n p] d t1 t2 n p by simp
qed

text \<open>
  C3. Dewhitening is an involution: for every byte sequence no longer than the whitening
  table, running the XOR loop over it twice gives the sequence back.
\<close>

theorem dewhiten_involution:
  "length xs \<le> length whitening \<Longrightarrow> fst (dewhiten pf (fst (dewhiten pf xs))) = xs"
  by (rule nth_equalityI) (simp_all add: dewhiten_length dewhiten_nth xor.assoc)

theorem dewhiten_involution_witness:
  "length [0xe0, 0xe1, 0x58 :: uint8_t] \<le> length whitening \<and>
   fst (dewhiten sample_platform (fst (dewhiten sample_platform [0xe0, 0xe1, 0x58]))) = [0xe0, 0xe1, 0x58] \<and>
   fst (dewhiten sample_platform [0xe0, 0xe1, 0x58]) = [0x1f, 0x00, 0x45]"
proof -
  have h: "length [0xe0, 0xe1, 0x58 :: uint8_t] \<le> length whitening"
    by (simp add: whitening_def)
  have v: "fst (dewhiten sample_platform [0xe0, 0xe1, 0x58]) = [0x1f, 0x00, 0x45]"
    by code_simp
  show ?thesis using h v dewhiten_involution [OF h, of sample_platform] by simp
qed

text \<open>
  C4. For every frame the elapsed time is \<open>time_overflows * 65536 + time_ms\<close>, without
  wrap-around in 32 bits, and it is split exactly into minutes, seconds and
  milliseconds. In particular 1000 ms with one overflow give 66536 ms, that is
  1 minute, 6 seconds and 536 milliseconds.
\<close>

theorem time_reconstruction:
  "unat (combitime_ms frame) = unat (time_overflows frame) * 65536 + unat (time_ms frame)
   \<and> unat (ms frame) = unat (combitime_ms frame) mod 1000
   \<and> unat (secs frame) = unat (combitime_ms frame) div 1000 mod 60
   \<and> unat (mins frame) = unat (combitime_ms frame) div 60000
   \<and> unat (combitime_ms frame)
       = 60000 * unat (mins frame) + 1000 * unat (secs frame) + unat (ms frame)
   \<and> (time_ms frame = 1000 \<and> time_overflows frame = 1 \<longrightarrow>
        combitime_ms frame = 66536 \<and> mins frame = 1 \<and> secs frame = 6 \<and> ms frame = 536)"
proof -
  let ?c = "unat (combitime_ms frame)"
  have c: "?c = unat (time_overflows frame) * 65536 + unat (time_ms frame)"
    by (rule combitime_ms_unat)
  have "60 * (?c div 1000 div 60) + ?c div 1000 mod 60 = ?c div 1000"
    by (rule mult_div_mod_eq)
  then have "1000 * (60 * (?c div 1000 div 60) + ?c div 1000 mod 60) + ?c mod 1000 = ?c"
    by (simp only: mult_div_mod_eq)
  then have parts: "?c = 60000 * (?c div 60000) + 1000 * (?c div 1000 mod 60) + ?c mod 1000"
    by (simp add: div_mult2_eq [symmetric] algebra_simps)
  have ex: "combitime_ms frame = 66536 \<and> mins frame = 1 \<and> secs frame = 6 \<and> ms frame = 536"
    if "time_ms frame = 1000" and "time_overflows frame = 1"
  proof -
    from that have "?c = 66536" by (simp add: c)
    then show ?thesis
      by (simp add: word_unat_eq_iff ms_unat secs_unat mins_unat)
  qed
  from c parts ex show ?thesis
    by (simp add: ms_unat secs_unat mins_unat)
qed

theorem time_reconstruction_witness:
  "time_ms [0x1f, 0x00, 0x45, 0x23, 0x01, 0x00, 0x07, 0xe8, 0x03, 0x01, 0xcc, 0xe7] = 1000
   \<and> time_overflows [0x1f, 0x00, 0x45, 0x23, 0x01, 0x00, 0x07, 0xe8, 0x03, 0x01, 0xcc, 0xe7] = 1
   \<and> combitime_ms [0x1f, 0x00, 0x45, 0x23, 0x01, 0x00, 0x07, 0xe8, 0x03, 0x01, 0xcc, 0xe7] = 66536
   \<and> mins [0x1f, 0x00, 0x45, 0x23, 0x01, 0x00, 0x07, 0xe8, 0x03, 0x01, 0xcc, 0xe7] = 1
   \<and> secs [0x1f, 0x00, 0x45, 0x23, 0x01, 0x00, 0x07, 0xe8, 0x03, 0x01, 0xcc, 0xe7] = 6
   \<and> ms [0x1f, 0x00, 0x45, 0x23, 0x01, 0x00, 0x07, 0xe8, 0x03, 0x01, 0xcc, 0xe7] = 536"
proof -
  have h: "time_ms [0x1f, 0x00, 0x45, 0x23, 0x01, 0x00, 0x07, 0xe8, 0x03, 0x01, 0xcc, 0xe7] = 1000
   \<and> time_overflows [0x1f, 0x00, 0x45, 0x23, 0x01, 0x00, 0x07, 0xe8, 0x03, 0x01, 0xcc, 0xe7] = 1"
    by (simp add: time_ms_def time_overflows_def)
  show ?thesis
    using time_reconstruction [of "[0x1f, 0x00, 0x45, 0x23, 0x01, 0x00, 0x07, 0xe8, 0x03, 0x01, 0xcc, 0xe7]"] h
    by blast
qed

text \<open>
  C5. The fields are taken from the dewhitened frame as the layout table says: the
  message number is bits 4 and 5 of byte 0; the resend flag is 0 or 1, and 1 exactly
  when the low four bits of byte 0 are 15; the card number is bytes 2 to 5,
  little-endian; the unit code is byte 6; the milliseconds are bytes 7 and 8,
  little-endian; the overflow count is byte 9; the CRC trailer is bytes 10 and 11,
  big-endian.
\<close>

theorem field_layout:
  "msgno frame = drop_bit 4 (frame ! 0 AND 0x30)
   \<and> unat (msgno frame) = unat (frame ! 0) div 16 mod 4
   \<and> (resend frame = 0 \<or> resend frame = 1)
   \<and> (resend frame = 1 \<longleftrightarrow> frame ! 0 AND 0x0F = 15)
   \<and> (resend frame = 1 \<longleftrightarrow> unat (frame ! 0) mod 16 = 15)
   \<and> unat (emitcode frame)
       = unat (frame ! 5) * 2 ^ 24 + unat (frame ! 4) * 2 ^ 16 + unat (frame ! 3) * 2 ^ 8
         + unat (frame ! 2)
   \<and> epostcode frame = frame ! 6
   \<and> unat (time_ms frame) = unat (frame ! 7) + unat (frame ! 8) * 2 ^ 8
   \<and> time_overflows frame = frame ! 9
   \<and> unat (trailer frame) = unat (frame ! 10) * 2 ^ 8 + unat (frame ! 11)"
proof -
  have r: "resend frame = 1 \<longleftrightarrow> frame ! 0 AND 0x0F = 15" by (simp add: resend_def)
  have z: "resend frame = 0 \<or> resend frame = 1" by (simp add: resend_def)
  from r z show ?thesis
    by (simp add: msgno_unat resend_iff [symmetric] emitcode_unat time_ms_unat trailer_unat
        epostcode_def time_overflows_def) (simp add: msgno_def)
qed

theorem field_layout_witness:
  "resend [0x1f, 0x00, 0x45, 0x23, 0x01, 0x00, 0x07, 0xe8, 0x03, 0x01, 0xcc, 0xe7] = 1
   \<and> [0x1f, 0x00, 0x45, 0x23, 0x01, 0x00, 0x07, 0xe8, 0x03, 0x01, 0xcc, 0xe7 :: uint8_t] ! 0
         AND 0x0F = 15
   \<and> unat (msgno [0x1f, 0x00, 0x45, 0x23, 0x01, 0x00, 0x07, 0xe8, 0x03, 0x01, 0xcc, 0xe7]) = 1
   \<and> unat (emitcode [0x1f, 0x00, 0x45, 0x23, 0x01, 0x00, 0x07, 0xe8, 0x03, 0x01, 0xcc, 0xe7])
        = 74565
   \<and> epostcode [0x1f, 0x00, 0x45, 0x23, 0x01, 0x00, 0x07, 0xe8, 0x03, 0x01, 0xcc, 0xe7] = 7
   \<and> unat (time_ms [0x1f, 0x00, 0x45, 0x23, 0x01, 0x00, 0x07, 0xe8, 0x03, 0x01, 0xcc, 0xe7])
        = 1000
   \<and> time_overflows [0x1f, 0x00, 0x45, 0x23, 0x01, 0x00, 0x07, 0xe8, 0x03, 0x01, 0xcc, 0xe7] = 1
   \<and> unat (trailer [0x1f, 0x00, 0x45, 0x23, 0x01, 0x00, 0x07, 0xe8, 0x03, 0x01, 0xcc, 0xe7])
        = 52455"
  using field_layout [of "[0x1f, 0x00, 0x45, 0x23, 0x01, 0x00, 0x07, 0xe8, 0x03, 0x01, 0xcc, 0xe7]"]
  by simp

text \<open>
  C6, as stated, fails: a row of eight zero bits is not empty and is shorter than 144
  bits, yet the decoder leaves at the marker search with \<open>DECODE_ABORT_EARLY\<close>, not at
  the length check.
\<close>

theorem short_row_counterexample:
  "\<not> num_rows noise_row < 1 \<and> 0 < row_len noise_row 0 \<and> row_len noise_row 0 < 144
   \<and> extract_calls (snd (emit_epost_decode sample_codes sample_platform noise_row)) = []
   \<and> terminal_failure (snd (emit_epost_decode sample_codes sample_platform noise_row))
        = Some NO_MARKER
   \<and> fst (emit_epost_decode sample_codes sample_platform noise_row)
        = DECODE_ABORT_EARLY sample_codes
   \<and> fst (emit_epost_decode sample_codes sample_platform noise_row)
        \<noteq> DECODE_ABORT_LENGTH sample_codes"
  by (simp add: num_rows_samples row_len_samples start_pos_noise_row sample_clock
      extract_calls_cases terminal_failure_cases return_cases sample_codes_def)

text \<open>
  C6, amended. For a buffer with a row 0 of fewer than 144 bits the decoder never calls
  \<open>bitbuffer_extract_bytes\<close>, never reads the whitening table and outputs no record.
  After the clock has been read it returns \<open>DECODE_ABORT_EARLY\<close> at the marker search
  when the row holds no marker, and \<open>DECODE_ABORT_LENGTH\<close> at the length check when it
  holds one.
\<close>

theorem short_row_never_extracted:
  assumes "\<not> num_rows bitbuffer < 1" and "row_len bitbuffer 0 < 144"
  shows "extract_calls (snd (emit_epost_decode rc pf bitbuffer)) = []
       \<and> whitening_reads (snd (emit_epost_decode rc pf bitbuffer)) = []
       \<and> records (snd (emit_epost_decode rc pf bitbuffer)) = []
       \<and> fst (emit_epost_decode rc pf bitbuffer) =
           (if clock_result pf = None then - 1
            else if start_pos bitbuffer = row_len bitbuffer 0 then DECODE_ABORT_EARLY rc
            else DECODE_ABORT_LENGTH rc)
       \<and> terminal_failure (snd (emit_epost_decode rc pf bitbuffer)) =
           (if clock_result pf = None then None
            else if start_pos bitbuffer = row_len bitbuffer 0 then Some NO_MARKER
            else Some TOO_SHORT)"
  using assms
  by (simp add: extract_calls_cases whitening_reads_cases records_cases return_cases
      terminal_failure_cases split: option.split)

theorem short_row_never_extracted_witness:
  "\<not> num_rows marker_only_row < 1 \<and> row_len marker_only_row 0 < 144
   \<and> start_pos marker_only_row \<noteq> row_len marker_only_row 0
   \<and> extract_calls (snd (emit_epost_decode sample_codes sample_platform marker_only_row)) = []
   \<and> fst (emit_epost_decode sample_codes sample_platform marker_only_row)
        = DECODE_ABORT_LENGTH sample_codes
   \<and> terminal_failure (snd (emit_epost_decode sample_codes sample_platform marker_only_row))
        = Some TOO_SHORT
   \<and> \<not> num_rows noise_row < 1 \<and> row_len noise_row 0 < 144
   \<and> start_pos noise_row = row_len noise_row 0
   \<and> extract_calls (snd (emit_epost_decode sample_codes sample_platform noise_row)) = []
   \<and> fst (emit_epost_decode sample_codes sample_platform noise_row)
        = DECODE_ABORT_EARLY sample_codes
   \<and> terminal_failure (snd (emit_epost_decode sample_codes sample_platform noise_row))
        = Some NO_MARKER"
proof -
  have m1: "\<not> num_rows marker_only_row < 1" by (simp add: num_rows_samples)
  have m2: "row_len marker_only_row 0 < 144" by (simp add: row_len_samples)
  have m3: "start_pos marker_only_row \<noteq> row_len marker_only_row 0"
    by (simp add: start_pos_marker_only_row row_len_samples)
  have n1: "\<not> num_rows noise_row < 1" by (simp add: num_rows_samples)
  have n2: "row_len noise_row 0 < 144" by (simp add: row_len_samples)
  have n3: "start_pos noise_row = row_len noise_row 0"
    by (simp add: start_pos_noise_row row_len_samples)
  show ?thesis
    using short_row_never_extracted [OF m1 m2, of sample_codes sample_platform]
      short_row_never_extracted [OF n1 n2, of sample_codes sample_platform]
      m1 m2 m3 n1 n2 n3 sample_clock
    by simp
qed

text \<open>
  C7 fails on the code. On \<open>good_row\<close>, a row that passes every guard and is decoded
  to a record, the whitening loop runs over all 20 bytes of the frame buffer and reads
  the whitening table at the indices 0 to 19; the table has 18 entries, so the reads at
  18 and 19 lie behind it.
\<close>

theorem whitening_read_past_table:
  "\<not> num_rows good_row < 1 \<and> start_pos good_row \<noteq> row_len good_row 0
   \<and> \<not> row_len good_row 0 < (10 + 8) * 8
   \<and> length whitening = 18
   \<and> whitening_reads (snd (emit_epost_decode sample_codes sample_platform good_row))
        = [0, 1, 2, 3, 4, 5, 6, 7, 8, 9, 10, 11, 12, 13, 14, 15, 16, 17, 18, 19]
   \<and> 18 \<in> set (whitening_reads
                    (snd (emit_epost_decode sample_codes sample_platform good_row)))
   \<and> \<not> 18 < length whitening
   \<and> fst (emit_epost_decode sample_codes sample_platform good_row) = 1"
proof -
  have r: "whitening_reads (snd (emit_epost_decode sample_codes sample_platform good_row))
        = [0, 1, 2, 3, 4, 5, 6, 7, 8, 9, 10, 11, 12, 13, 14, 15, 16, 17, 18, 19]"
    by (simp add: whitening_reads_cases sample_clock num_rows_samples row_len_samples
        start_pos_good_row upt_rec)
  have w: "length whitening = 18" by (simp add: whitening_def)
  have f: "fst (emit_epost_decode sample_codes sample_platform good_row) = 1"
    by (simp add: return_cases sample_clock num_rows_samples row_len_samples
        start_pos_good_row working_frame_good_row crc_match_iff crc16_sample)
  show ?thesis
    unfolding r w using f
    by (simp add: num_rows_samples row_len_samples start_pos_good_row)
qed

text \<open>
  C8 fails on the code. \<open>truncated_row\<close> has 144 bits and its marker starts at bit 16.
  It passes the marker search and the length check, and the decoder asks for 96 bits
  from bit 64 on, that is up to bit 160, behind the end of the row.
\<close>

theorem extraction_past_row_end:
  "\<not> num_rows truncated_row < 1 \<and> start_pos truncated_row = 16
   \<and> start_pos truncated_row \<noteq> row_len truncated_row 0
   \<and> \<not> row_len truncated_row 0 < (10 + 8) * 8
   \<and> extract_calls (snd (emit_epost_decode sample_codes sample_platform truncated_row))
        = [(0, 64, 96)]
   \<and> row_len truncated_row 0 = 144
   \<and> row_len truncated_row 0 < 64 + 96"
  by (simp add: extract_calls_cases sample_clock num_rows_samples row_len_samples
      start_pos_truncated_row)

text \<open>
  C9. The message number is at most 3 for every frame, so the sanity check never
  fails: no run ends in the sanity-check state, and no run returns
  \<open>DECODE_FAIL_SANITY\<close> when that enumerator differs from the other values the decoder
  returns.
\<close>

theorem sanity_failure_unreachable:
  "msgno frame \<le> 3
   \<and> terminal_failure (snd (emit_epost_decode rc pf bitbuffer)) \<noteq> Some SANITY_FAILED
   \<and> (DECODE_FAIL_SANITY rc \<notin> {- 1, 1, DECODE_ABORT_EARLY rc, DECODE_ABORT_LENGTH rc,
                                 DECODE_FAIL_MIC rc}
        \<longrightarrow> fst (emit_epost_decode rc pf bitbuffer) \<noteq> DECODE_FAIL_SANITY rc)"
  by (simp add: msgno_le terminal_failure_cases return_cases split: option.split)

theorem sanity_failure_unreachable_witness:
  "DECODE_FAIL_SANITY sample_codes \<notin> {- 1, 1, DECODE_ABORT_EARLY sample_codes,
       DECODE_ABORT_LENGTH sample_codes, DECODE_FAIL_MIC sample_codes}
   \<and> fst (emit_epost_decode sample_codes sample_platform good_row)
        \<noteq> DECODE_FAIL_SANITY sample_codes
   \<and> msgno (working_frame sample_platform good_row) \<le> 3"
proof -
  have d: "DECODE_FAIL_SANITY sample_codes \<notin> {- 1, 1, DECODE_ABORT_EARLY sample_codes,
       DECODE_ABORT_LENGTH sample_codes, DECODE_FAIL_MIC sample_codes}"
    by (simp add: sample_codes_def)
  show ?thesis
    using sanity_failure_unreachable
      [of "working_frame sample_platform good_row" sample_codes sample_platform good_row] d
    by blast
qed

text \<open>
  C10, as stated, fails: on a buffer without rows the decoder ends in the no-data
  state, outputs nothing, and has read the clock.
\<close>

theorem clock_read_counterexample:
  "terminal_failure (snd (emit_epost_decode sample_codes sample_platform no_rows)) = Some NO_DATA
   \<and> records (snd (emit_epost_decode sample_codes sample_platform no_rows)) = []
   \<and> count_list (snd (emit_epost_decode sample_codes sample_platform no_rows)) Clock_gettime = 1
   \<and> snd (emit_epost_decode sample_codes sample_platform no_rows)
        = [Clock_gettime, Decoder_logf 0 msg_not_1_row []]"
proof -
  have t: "terminal_failure (snd (emit_epost_decode sample_codes sample_platform no_rows))
             = Some NO_DATA"
    by (simp add: terminal_failure_cases sample_clock num_rows_samples)
  have r: "records (snd (emit_epost_decode sample_codes sample_platform no_rows)) = []"
    by (simp add: records_cases sample_clock num_rows_samples)
  have e: "snd (emit_epost_decode sample_codes sample_platform no_rows)
             = [Clock_gettime, Decoder_logf 0 msg_not_1_row []]"
    by (simp add: emit_epost_decode_stages sample_clock num_rows_samples)
  show ?thesis unfolding t r unfolding e by simp
qed

text \<open>
  C10, amended. The decoder reads the clock exactly once in every run, as the first
  thing it does, whether the run ends in a record or in a failure.
\<close>

theorem clock_read_once_per_attempt:
  "count_list (snd (emit_epost_decode rc pf bitbuffer)) Clock_gettime = 1
   \<and> hd (snd (emit_epost_decode rc pf bitbuffer)) = Clock_gettime"
  by (simp add: emit_epost_decode_stages count_clock_reads split: option.split)

end
